theory Spec2Isabelle
  imports Main
begin

section \<open>Python values and exceptions\<close>

text \<open>
  The values that travel through the dispatcher, the namespace facade and the Kafka
  manager are Python objects. Strings are Python \<open>str\<close>, byte strings are \<open>bytes\<close>;
  \<open>PyObj\<close> is an opaque object (a callback, a context manager) that defines neither
  \<open>__bool__\<close> nor \<open>__len__\<close>, identified by a number.
\<close>

type_synonym bytes = "char list"

datatype pyval =
    PyNone
  | PyBool bool
  | PyInt int
  | PyStr string
  | PyBytes bytes
  | PyList "pyval list"
  | PyDict "(pyval \<times> pyval) list"
  | PyObj nat

text \<open>Python's truth value testing, which decides \<open>a or b\<close>.\<close>

fun truthy :: "pyval \<Rightarrow> bool" where
  "truthy PyNone = False"
| "truthy (PyBool b) = b"
| "truthy (PyInt i) = (i \<noteq> 0)"
| "truthy (PyStr s) = (s \<noteq> [])"
| "truthy (PyBytes b) = (b \<noteq> [])"
| "truthy (PyList xs) = (xs \<noteq> [])"
| "truthy (PyDict kvs) = (kvs \<noteq> [])"
| "truthy (PyObj n) = True"

definition py_or :: "pyval \<Rightarrow> pyval \<Rightarrow> pyval" where
  "py_or a b = (if truthy a then a else b)"

text \<open>
  The exceptions that the two modules raise or let through. \<open>AppError\<close> stands for any
  exception of application code, named by its text.
\<close>

datatype exn =
    CancelledError
  | TypeError
  | RuntimeError string
  | EOFError
  | PicklingError
  | UnpicklingError
  | NoBrokersAvailable
  | AppError string

section \<open>The Kafka manager (kafka\_manager.py)\<close>

subsection \<open>The environment: the kafka client library, the broker and pickle\<close>

text \<open>
  A record of a Kafka topic: what \<open>producer.send(topic, value=...)\<close> stores and what
  iterating a consumer hands back (\<open>message.topic\<close>, \<open>message.value\<close>).
\<close>

record message =
  topic :: string
  msg_value :: bytes

text \<open>
  The module-level name \<open>kafka\<close> is the imported library, or \<open>None\<close> when the import
  failed. \<open>reachable\<close> says at which bootstrap addresses a broker answers: the
  constructors of the library's producer and consumer connect at once and raise when no
  broker answers.
\<close>

record kafka_env =
  kafka :: bool
  reachable :: "string \<Rightarrow> bool"

record KafkaProducer =
  producer_servers :: string

record KafkaConsumer =
  consumer_topic :: string
  consumer_servers :: string

text \<open>What a construction of a manager did, in order.\<close>

datatype init_step =
    SuperInit string bool
  | NewProducer string
  | NewConsumer string string

definition new_KafkaProducer :: "kafka_env \<Rightarrow> string \<Rightarrow> exn + KafkaProducer" where
  "new_KafkaProducer env servers =
     (if reachable env servers then Inr \<lparr>producer_servers = servers\<rparr>
      else Inl NoBrokersAvailable)"

definition new_KafkaConsumer :: "kafka_env \<Rightarrow> string \<Rightarrow> string \<Rightarrow> exn + KafkaConsumer" where
  "new_KafkaConsumer env tp servers =
     (if reachable env servers then Inr \<lparr>consumer_topic = tp, consumer_servers = servers\<rparr>
      else Inl NoBrokersAvailable)"

text \<open>
  The serializer is Python's \<open>pickle\<close> module, which is not part of the repository: the
  manager is modelled over any pair of \<open>dumps\<close> and \<open>loads\<close>, each of which may raise.
\<close>

record codec =
  dumps :: "pyval \<Rightarrow> exn + bytes"
  loads :: "bytes \<Rightarrow> exn + pyval"

text \<open>
  The broker as a producer sees it: \<open>send\<close> queues a record, \<open>flush\<close> delivers what is
  queued to the topic log. Both raise when the broker is out of reach.
\<close>

record broker =
  up :: bool
  pending :: "message list"
  delivered :: "message list"

definition producer_send :: "string \<Rightarrow> bytes \<Rightarrow> broker \<Rightarrow> exn + broker" where
  "producer_send tp v b =
     (if up b then Inr (b\<lparr>pending := pending b @ [\<lparr>topic = tp, msg_value = v\<rparr>]\<rparr>)
      else Inl NoBrokersAvailable)"

definition producer_flush :: "broker \<Rightarrow> exn + broker" where
  "producer_flush b =
     (if up b then Inr (b\<lparr>delivered := delivered b @ pending b, pending := []\<rparr>)
      else Inl NoBrokersAvailable)"

subsection \<open>The base class\<close>

text \<open>
  Modelled from the spec: \<open>PubSubManager\<close> (pubsub\_manager.py), the base class of
  \<open>KafkaManager\<close>, is not among the sources. The spec gives it the channel name and the
  write-only flag as construction-time configuration.
\<close>

record PubSubManager =
  channel :: string
  write_only :: bool

text \<open>
  Modelled from the spec: the constructor of \<open>PubSubManager\<close>, which keeps the channel
  name and the write-only flag it is given.
\<close>

definition PubSubManager_init :: "string \<Rightarrow> bool \<Rightarrow> PubSubManager" where
  "PubSubManager_init ch wo = \<lparr>channel = ch, write_only = wo\<rparr>"

subsection \<open>KafkaManager\<close>

record KafkaManager = PubSubManager +
  kafka_url :: string
  producer :: KafkaProducer
  consumer :: KafkaConsumer

text \<open>
  \<open>KafkaManager.__init__\<close>. The result is the exception raised or the manager built,
  with the steps taken so far.
\<close>

definition KafkaManager_init ::
  "kafka_env \<Rightarrow> string \<Rightarrow> string \<Rightarrow> bool \<Rightarrow> (exn + KafkaManager) \<times> init_step list" where
  "KafkaManager_init env url ch wo =
     (if \<not> kafka env then
        (Inl (RuntimeError (''kafka-python package is not installed '' @
                            ''(Run \"pip install kafka-python\" in your '' @
                            ''virtualenv).'')), [])
      else
        let base = PubSubManager_init ch wo;
            s1 = [SuperInit ch wo];
            addr = (if url \<noteq> ''kafka://'' then drop 8 url else ''localhost:9092'');
            s2 = s1 @ [NewProducer addr]
        in (case new_KafkaProducer env addr of
              Inl e \<Rightarrow> (Inl e, s2)
            | Inr p \<Rightarrow>
                (let s3 = s2 @ [NewConsumer (channel base) addr]
                 in (case new_KafkaConsumer env (channel base) addr of
                       Inl e \<Rightarrow> (Inl e, s3)
                     | Inr c \<Rightarrow>
                         (Inr \<lparr>channel = channel base, write_only = write_only base,
                               kafka_url = addr, producer = p, consumer = c\<rparr>, s3)))))"

text \<open>
  \<open>KafkaManager._publish\<close>: pickle the data, send it on the manager's channel, flush.
  Whatever \<open>pickle.dumps\<close>, \<open>send\<close> or \<open>flush\<close> raises leaves the method.
\<close>

definition KafkaManager_publish :: "codec \<Rightarrow> KafkaManager \<Rightarrow> pyval \<Rightarrow> broker \<Rightarrow> exn + broker" where
  "KafkaManager_publish pickle self data b =
     (case dumps pickle data of
        Inl e \<Rightarrow> Inl e
      | Inr bs \<Rightarrow>
          (case producer_send (channel self) bs b of
             Inl e \<Rightarrow> Inl e
           | Inr b1 \<Rightarrow> producer_flush b1))"

text \<open>
  \<open>KafkaManager._kafka_listen\<close> yields every record the consumer hands over. The
  consumer's iteration is given by the records it has received so far, in order.
\<close>

definition KafkaManager_kafka_listen :: "KafkaManager \<Rightarrow> message list \<Rightarrow> message list" where
  "KafkaManager_kafka_listen self consumed = consumed"

text \<open>
  The loop of \<open>KafkaManager._listen\<close> over the records of \<open>_kafka_listen\<close>: a record
  of another topic is passed over, a record of the channel is unpickled and the result
  yielded. An exception of \<open>pickle.loads\<close> is not caught: it leaves the generator, which
  is finished from then on. The result is the values yielded, in order, and the exception
  that ended the generator, if one did.
\<close>

fun listen_loop :: "codec \<Rightarrow> string \<Rightarrow> message list \<Rightarrow> pyval list \<times> exn option" where
  "listen_loop pickle ch [] = ([], None)"
| "listen_loop pickle ch (m # ms) =
     (if topic m = ch then
        (case loads pickle (msg_value m) of
           Inl e \<Rightarrow> ([], Some e)
         | Inr v \<Rightarrow> (case listen_loop pickle ch ms of (ys, r) \<Rightarrow> (v # ys, r)))
      else listen_loop pickle ch ms)"

definition KafkaManager_listen ::
  "codec \<Rightarrow> KafkaManager \<Rightarrow> message list \<Rightarrow> pyval list \<times> exn option" where
  "KafkaManager_listen pickle self consumed =
     listen_loop pickle (channel self) (KafkaManager_kafka_listen self consumed)"

subsection \<open>A length-delimited serializer\<close>

text \<open>
  Modelled from the spec: the serializer. The source calls Python's \<open>pickle\<close>, whose
  code is not among the sources; the spec asks for a format that round-trips structured
  payload values without loss (strings, numbers, nested mappings and sequences, binary
  blobs) and describes the message as a length-delimited structured payload. The format
  here writes one tag byte for the kind of value, then lengths and counts as natural
  numbers, then the content. A natural number is written in groups of seven bits, lowest
  group first, with the high bit set on every group but the last.
\<close>

fun enc_nat :: "nat \<Rightarrow> bytes" where
  "enc_nat n =
     (if n < 128 then [char_of n] else char_of (128 + n mod 128) # enc_nat (n div 128))"

declare enc_nat.simps [simp del]

text \<open>
  Modelled from the spec: reading a natural number back, with the bytes that follow it.
\<close>

fun dec_nat :: "bytes \<Rightarrow> (nat \<times> bytes) option" where
  "dec_nat [] = None"
| "dec_nat (c # cs) =
     (if of_char c < (128 :: nat) then Some (of_char c, cs)
      else (case dec_nat cs of
              None \<Rightarrow> None
            | Some (m, r) \<Rightarrow> Some (of_char c - 128 + 128 * m, r)))"

text \<open>
  Modelled from the spec: the bytes of a value. An opaque object has no bytes; \<open>dumps\<close>
  refuses a value that holds one.
\<close>

fun encode :: "pyval \<Rightarrow> bytes" where
  "encode PyNone = [CHR ''N'']"
| "encode (PyBool b) = (if b then [CHR ''T''] else [CHR ''F''])"
| "encode (PyInt i) =
     (if 0 \<le> i then CHR ''I'' # enc_nat (nat i) else CHR ''J'' # enc_nat (nat (- i)))"
| "encode (PyStr s) = CHR ''S'' # enc_nat (length s) @ s"
| "encode (PyBytes b) = CHR ''B'' # enc_nat (length b) @ b"
| "encode (PyList xs) = CHR ''L'' # enc_nat (length xs) @ concat (map encode xs)"
| "encode (PyDict kvs) =
     CHR ''D'' # enc_nat (length kvs) @ concat (map (\<lambda>(k, v). encode k @ encode v) kvs)"
| "encode (PyObj n) = []"

text \<open>
  Modelled from the spec: the supported payloads, which are the values that hold no opaque
  object.
\<close>

fun picklable :: "pyval \<Rightarrow> bool" where
  "picklable (PyList xs) = list_all picklable xs"
| "picklable (PyDict kvs) = list_all (\<lambda>(k, v). picklable k \<and> picklable v) kvs"
| "picklable (PyObj n) = False"
| "picklable v = True"

text \<open>
  Modelled from the spec: reading a given number of items, one after the other, with a
  reader for one item.
\<close>

primrec dec_items ::
  "(bytes \<Rightarrow> ('a \<times> bytes) option) \<Rightarrow> nat \<Rightarrow> bytes \<Rightarrow> ('a list \<times> bytes) option" where
  "dec_items d 0 bs = Some ([], bs)"
| "dec_items d (Suc n) bs =
     (case d bs of
        None \<Rightarrow> None
      | Some (x, r) \<Rightarrow>
          (case dec_items d n r of
             None \<Rightarrow> None
           | Some (xs, r1) \<Rightarrow> Some (x # xs, r1)))"

text \<open>
  Modelled from the spec: reading a key and then its value.
\<close>

definition dec_pair ::
  "(bytes \<Rightarrow> ('a \<times> bytes) option) \<Rightarrow> bytes \<Rightarrow> (('a \<times> 'a) \<times> bytes) option" where
  "dec_pair d bs =
     (case d bs of
        None \<Rightarrow> None
      | Some (k, r) \<Rightarrow>
          (case d r of
             None \<Rightarrow> None
           | Some (v, r1) \<Rightarrow> Some ((k, v), r1)))"

text \<open>
  Modelled from the spec: reading one value and the bytes that follow it. The first
  argument bounds the nesting that is followed; the number of bytes of the input is always
  enough, since every level of nesting takes at least its tag byte.
\<close>

primrec decode :: "nat \<Rightarrow> bytes \<Rightarrow> (pyval \<times> bytes) option" where
  "decode 0 bs = None"
| "decode (Suc f) bs =
     (case bs of
        [] \<Rightarrow> None
      | c # r \<Rightarrow>
          if c = CHR ''N'' then Some (PyNone, r)
          else if c = CHR ''T'' then Some (PyBool True, r)
          else if c = CHR ''F'' then Some (PyBool False, r)
          else if c = CHR ''I'' then
            (case dec_nat r of None \<Rightarrow> None | Some (n, r1) \<Rightarrow> Some (PyInt (int n), r1))
          else if c = CHR ''J'' then
            (case dec_nat r of None \<Rightarrow> None | Some (n, r1) \<Rightarrow> Some (PyInt (- int n), r1))
          else if c = CHR ''S'' then
            (case dec_nat r of
               None \<Rightarrow> None
             | Some (n, r1) \<Rightarrow>
                 if length r1 < n then None else Some (PyStr (take n r1), drop n r1))
          else if c = CHR ''B'' then
            (case dec_nat r of
               None \<Rightarrow> None
             | Some (n, r1) \<Rightarrow>
                 if length r1 < n then None else Some (PyBytes (take n r1), drop n r1))
          else if c = CHR ''L'' then
            (case dec_nat r of
               None \<Rightarrow> None
             | Some (n, r1) \<Rightarrow>
                 (case dec_items (decode f) n r1 of
                    None \<Rightarrow> None
                  | Some (xs, r2) \<Rightarrow> Some (PyList xs, r2)))
          else if c = CHR ''D'' then
            (case dec_nat r of
               None \<Rightarrow> None
             | Some (n, r1) \<Rightarrow>
                 (case dec_items (dec_pair (decode f)) n r1 of
                    None \<Rightarrow> None
                  | Some (kvs, r2) \<Rightarrow> Some (PyDict kvs, r2)))
          else None)"

text \<open>
  Modelled from the spec: \<open>dumps\<close>, which raises on an unsupported payload.
\<close>

definition pickle_dumps :: "pyval \<Rightarrow> exn + bytes" where
  "pickle_dumps v = (if picklable v then Inr (encode v) else Inl PicklingError)"

text \<open>
  Modelled from the spec: \<open>loads\<close>, which raises \<open>EOFError\<close> on empty input and
  \<open>UnpicklingError\<close> on input that is truncated, malformed or followed by more bytes.
\<close>

definition pickle_loads :: "bytes \<Rightarrow> exn + pyval" where
  "pickle_loads bs =
     (case decode (length bs) bs of
        None \<Rightarrow> if bs = [] then Inl EOFError else Inl UnpicklingError
      | Some (v, r) \<Rightarrow> if r = [] then Inr v else Inl UnpicklingError)"

text \<open>
  Modelled from the spec: the serializer that every member of the cluster uses.
\<close>

definition pickle_codec :: codec where
  "pickle_codec = \<lparr>dumps = pickle_dumps, loads = pickle_loads\<rparr>"

subsection \<open>The consumer loop of the base class\<close>

text \<open>
  Modelled from the spec: the start of the consumer loop and the loop itself belong to
  \<open>PubSubManager\<close>, which is not among the sources. A process records whether its
  consumer loop was started and which broadcasts it has applied locally.
\<close>

record process =
  loop_started :: bool
  applied :: "pyval list"

text \<open>
  Modelled from the spec: a process at its start, with no consumer loop running and
  nothing applied.
\<close>

definition new_process :: process where
  "new_process = \<lparr>loop_started = False, applied = []\<rparr>"

text \<open>
  Modelled from the spec: initialising a manager starts the consumer loop unless the
  manager is write-only.
\<close>

definition PubSubManager_initialize :: "KafkaManager \<Rightarrow> process \<Rightarrow> process" where
  "PubSubManager_initialize self p =
     (if \<not> write_only self then p\<lparr>loop_started := True\<rparr> else p)"

text \<open>
  Modelled from the spec: the consumer loop applies locally every value that \<open>_listen\<close>
  yields, in order.
\<close>

definition PubSubManager_thread ::
  "codec \<Rightarrow> KafkaManager \<Rightarrow> message list \<Rightarrow> process \<Rightarrow> process" where
  "PubSubManager_thread pickle self consumed p =
     p\<lparr>applied := applied p @ fst (KafkaManager_listen pickle self consumed)\<rparr>"

text \<open>
  Modelled from the spec: the consumer loop runs in the background of a process only when
  it was started.
\<close>

definition run_background ::
  "codec \<Rightarrow> KafkaManager \<Rightarrow> message list \<Rightarrow> process \<Rightarrow> process" where
  "run_background pickle self consumed p =
     (if loop_started p then PubSubManager_thread pickle self consumed p else p)"

section \<open>Class-based namespaces (asyncio\_namespace.py)\<close>

subsection \<open>Handlers, the owner and the observable state\<close>

text \<open>
  A call made on the owning server or client: the method, the positional arguments and
  the keyword arguments as the call site writes them.
\<close>

record call =
  call_method :: string
  call_args :: "pyval list"
  call_kwargs :: "(string \<times> pyval) list"

text \<open>
  The state a dispatch or a facade call runs in: \<open>world\<close> is everything handlers and the
  owner can read and change; \<open>invoked\<close> lists the handler invocations made, each with the
  attribute name and the positional arguments; \<open>forwarded\<close> lists the calls made on the
  owner. The two lists only record: no handler and no owner reads them.
\<close>

record 'w pystate =
  invoked :: "(string \<times> pyval list) list"
  forwarded :: "call list"
  world :: 'w

text \<open>
  An attribute of a namespace object, as \<open>trigger_event\<close> tells them apart: one for
  which \<open>asyncio.iscoroutinefunction\<close> is true, any other callable, or a value that
  cannot be called. A callable is given by what a call to it, run to completion (awaited,
  for a coroutine function), returns or raises and how it changes the world. A coroutine
  cancelled while suspended raises \<open>CancelledError\<close> at that point.
\<close>

datatype 'w attr =
    CoroutineFunction "pyval list \<Rightarrow> 'w \<Rightarrow> (exn + pyval) \<times> 'w"
  | PlainCallable "pyval list \<Rightarrow> 'w \<Rightarrow> (exn + pyval) \<times> 'w"
  | NotCallable pyval

definition invoke ::
  "string \<Rightarrow> (pyval list \<Rightarrow> 'w \<Rightarrow> (exn + pyval) \<times> 'w) \<Rightarrow> pyval list \<Rightarrow> 'w pystate
   \<Rightarrow> (exn + pyval) \<times> 'w pystate" where
  "invoke name h args st =
     (case h args (world st) of
        (r, w) \<Rightarrow> (r, st\<lparr>invoked := invoked st @ [(name, args)], world := w\<rparr>))"

definition owner_call ::
  "(call \<Rightarrow> 'w \<Rightarrow> (exn + pyval) \<times> 'w) \<Rightarrow> call \<Rightarrow> 'w pystate \<Rightarrow> (exn + pyval) \<times> 'w pystate" where
  "owner_call owner c st =
     (case owner c (world st) of
        (r, w) \<Rightarrow> (r, st\<lparr>forwarded := forwarded st @ [c], world := w\<rparr>))"

text \<open>\<open>try: ret = await handler(*args) except asyncio.CancelledError: ret = None\<close>\<close>

definition except_CancelledError :: "exn + pyval \<Rightarrow> exn + pyval" where
  "except_CancelledError r = (if r = Inl CancelledError then Inr PyNone else r)"

subsection \<open>AsyncNamespace\<close>

record 'w AsyncNamespace =
  ns_attrs :: "string \<Rightarrow> 'w attr option"
  ns_namespace :: pyval
  ns_server :: "call \<Rightarrow> 'w \<Rightarrow> (exn + pyval) \<times> 'w"

definition AsyncNamespace_trigger_event ::
  "'w AsyncNamespace \<Rightarrow> string \<Rightarrow> pyval list \<Rightarrow> 'w pystate \<Rightarrow> (exn + pyval) \<times> 'w pystate" where
  "AsyncNamespace_trigger_event self event args st =
     (let handler_name = ''on_'' @ event in
      case ns_attrs self handler_name of
        None \<Rightarrow> (Inr PyNone, st)
      | Some handler \<Rightarrow>
          (case handler of
             CoroutineFunction h \<Rightarrow>
               (case invoke handler_name h args st of
                  (r, st1) \<Rightarrow> (except_CancelledError r, st1))
           | PlainCallable h \<Rightarrow> invoke handler_name h args st
           | NotCallable v \<Rightarrow> (Inl TypeError, st)))"

definition AsyncNamespace_emit ::
  "'w AsyncNamespace \<Rightarrow> pyval \<Rightarrow> pyval \<Rightarrow> pyval \<Rightarrow> pyval \<Rightarrow> pyval \<Rightarrow> pyval \<Rightarrow> 'w pystate
   \<Rightarrow> (exn + pyval) \<times> 'w pystate" where
  "AsyncNamespace_emit self event data room skip_sid s_namespace callback st =
     owner_call (ns_server self)
       \<lparr>call_method = ''emit'', call_args = [event],
        call_kwargs = [(''data'', data), (''room'', room), (''skip_sid'', skip_sid),
                       (''namespace'', py_or s_namespace (ns_namespace self)),
                       (''callback'', callback)]\<rparr> st"

definition AsyncNamespace_send ::
  "'w AsyncNamespace \<Rightarrow> pyval \<Rightarrow> pyval \<Rightarrow> pyval \<Rightarrow> pyval \<Rightarrow> pyval \<Rightarrow> 'w pystate
   \<Rightarrow> (exn + pyval) \<times> 'w pystate" where
  "AsyncNamespace_send self data room skip_sid s_namespace callback st =
     owner_call (ns_server self)
       \<lparr>call_method = ''send'', call_args = [data],
        call_kwargs = [(''room'', room), (''skip_sid'', skip_sid),
                       (''namespace'', py_or s_namespace (ns_namespace self)),
                       (''callback'', callback)]\<rparr> st"

definition AsyncNamespace_close_room ::
  "'w AsyncNamespace \<Rightarrow> pyval \<Rightarrow> pyval \<Rightarrow> 'w pystate \<Rightarrow> (exn + pyval) \<times> 'w pystate" where
  "AsyncNamespace_close_room self room s_namespace st =
     owner_call (ns_server self)
       \<lparr>call_method = ''close_room'', call_args = [room],
        call_kwargs = [(''namespace'', py_or s_namespace (ns_namespace self))]\<rparr> st"

definition AsyncNamespace_get_session ::
  "'w AsyncNamespace \<Rightarrow> pyval \<Rightarrow> pyval \<Rightarrow> 'w pystate \<Rightarrow> (exn + pyval) \<times> 'w pystate" where
  "AsyncNamespace_get_session self sid s_namespace st =
     owner_call (ns_server self)
       \<lparr>call_method = ''get_session'', call_args = [sid],
        call_kwargs = [(''namespace'', py_or s_namespace (ns_namespace self))]\<rparr> st"

definition AsyncNamespace_save_session ::
  "'w AsyncNamespace \<Rightarrow> pyval \<Rightarrow> pyval \<Rightarrow> pyval \<Rightarrow> 'w pystate \<Rightarrow> (exn + pyval) \<times> 'w pystate" where
  "AsyncNamespace_save_session self sid session s_namespace st =
     owner_call (ns_server self)
       \<lparr>call_method = ''save_session'', call_args = [sid, session],
        call_kwargs = [(''namespace'', py_or s_namespace (ns_namespace self))]\<rparr> st"

definition AsyncNamespace_session ::
  "'w AsyncNamespace \<Rightarrow> pyval \<Rightarrow> pyval \<Rightarrow> 'w pystate \<Rightarrow> (exn + pyval) \<times> 'w pystate" where
  "AsyncNamespace_session self sid s_namespace st =
     owner_call (ns_server self)
       \<lparr>call_method = ''session'', call_args = [sid],
        call_kwargs = [(''namespace'', py_or s_namespace (ns_namespace self))]\<rparr> st"

definition AsyncNamespace_disconnect ::
  "'w AsyncNamespace \<Rightarrow> pyval \<Rightarrow> pyval \<Rightarrow> 'w pystate \<Rightarrow> (exn + pyval) \<times> 'w pystate" where
  "AsyncNamespace_disconnect self sid s_namespace st =
     owner_call (ns_server self)
       \<lparr>call_method = ''disconnect'', call_args = [sid],
        call_kwargs = [(''namespace'', py_or s_namespace (ns_namespace self))]\<rparr> st"

subsection \<open>AsyncClientNamespace\<close>

record 'w AsyncClientNamespace =
  cns_attrs :: "string \<Rightarrow> 'w attr option"
  cns_namespace :: pyval
  cns_client :: "call \<Rightarrow> 'w \<Rightarrow> (exn + pyval) \<times> 'w"

definition AsyncClientNamespace_trigger_event ::
  "'w AsyncClientNamespace \<Rightarrow> string \<Rightarrow> pyval list \<Rightarrow> 'w pystate
   \<Rightarrow> (exn + pyval) \<times> 'w pystate" where
  "AsyncClientNamespace_trigger_event self event args st =
     (let handler_name = ''on_'' @ event in
      case cns_attrs self handler_name of
        None \<Rightarrow> (Inr PyNone, st)
      | Some handler \<Rightarrow>
          (case handler of
             CoroutineFunction h \<Rightarrow>
               (case invoke handler_name h args st of
                  (r, st1) \<Rightarrow> (except_CancelledError r, st1))
           | PlainCallable h \<Rightarrow> invoke handler_name h args st
           | NotCallable v \<Rightarrow> (Inl TypeError, st)))"

definition AsyncClientNamespace_emit ::
  "'w AsyncClientNamespace \<Rightarrow> pyval \<Rightarrow> pyval \<Rightarrow> pyval \<Rightarrow> pyval \<Rightarrow> 'w pystate
   \<Rightarrow> (exn + pyval) \<times> 'w pystate" where
  "AsyncClientNamespace_emit self event data s_namespace callback st =
     owner_call (cns_client self)
       \<lparr>call_method = ''emit'', call_args = [event],
        call_kwargs = [(''data'', data),
                       (''namespace'', py_or s_namespace (cns_namespace self)),
                       (''callback'', callback)]\<rparr> st"

definition AsyncClientNamespace_send ::
  "'w AsyncClientNamespace \<Rightarrow> pyval \<Rightarrow> pyval \<Rightarrow> pyval \<Rightarrow> 'w pystate
   \<Rightarrow> (exn + pyval) \<times> 'w pystate" where
  "AsyncClientNamespace_send self data s_namespace callback st =
     owner_call (cns_client self)
       \<lparr>call_method = ''send'', call_args = [data],
        call_kwargs = [(''namespace'', py_or s_namespace (cns_namespace self)),
                       (''callback'', callback)]\<rparr> st"

definition AsyncClientNamespace_disconnect ::
  "'w AsyncClientNamespace \<Rightarrow> 'w pystate \<Rightarrow> (exn + pyval) \<times> 'w pystate" where
  "AsyncClientNamespace_disconnect self st =
     owner_call (cns_client self)
       \<lparr>call_method = ''disconnect'', call_args = [], call_kwargs = []\<rparr> st"

section \<open>Concrete instances for the worked examples\<close>

text \<open>
  A small serializer in the place of pickle: a string is written as the byte \<open>S\<close> and its
  characters, a byte string as \<open>B\<close> and its bytes; empty input does not load (as
  \<open>pickle.loads(b'')\<close> raises \<open>EOFError\<close>), nor does an unknown first byte.
\<close>

definition demo_pickle :: codec where
  "demo_pickle =
     \<lparr>dumps = (\<lambda>v. case v of PyStr s \<Rightarrow> Inr (CHR ''S'' # s)
                        | PyBytes b \<Rightarrow> Inr (CHR ''B'' # b)
                        | _ \<Rightarrow> Inl PicklingError),
      loads = (\<lambda>bs. case bs of [] \<Rightarrow> Inl EOFError
                        | c # r \<Rightarrow> if c = CHR ''S'' then Inr (PyStr r)
                                   else if c = CHR ''B'' then Inr (PyBytes r)
                                   else Inl UnpicklingError)\<rparr>"

text \<open>
  An environment with the kafka library installed and a broker at every address, and the
  manager that \<open>KafkaManager('kafka://', 'socketioN', write_only)\<close> builds there.
\<close>

definition demo_env :: kafka_env where
  "demo_env = \<lparr>kafka = True, reachable = (\<lambda>a. True)\<rparr>"

definition demo_manager :: "bool \<Rightarrow> KafkaManager" where
  "demo_manager wo =
     \<lparr>channel = ''socketioN'', write_only = wo, kafka_url = ''localhost:9092'',
      producer = \<lparr>producer_servers = ''localhost:9092''\<rparr>,
      consumer = \<lparr>consumer_topic = ''socketioN'', consumer_servers = ''localhost:9092''\<rparr>\<rparr>"

text \<open>
  A namespace bound to \<open>/chat\<close> whose world is a clock. \<open>on_message\<close> is a coroutine
  that sleeps one tick and returns \<open>"ack"\<close>; \<open>on_count\<close> returns the number of its
  arguments; \<open>on_boom\<close> and \<open>on_fail\<close> raise; \<open>on_slow\<close> is cancelled while it
  sleeps. The owner accepts every call and returns \<open>None\<close>.
\<close>

definition demo_owner :: "call \<Rightarrow> nat \<Rightarrow> (exn + pyval) \<times> nat" where
  "demo_owner c t = (Inr PyNone, t)"

definition demo_attrs :: "string \<Rightarrow> nat attr option" where
  "demo_attrs =
     [''on_message'' \<mapsto> CoroutineFunction (\<lambda>args t. (Inr (PyStr ''ack''), t + 1)),
      ''on_count'' \<mapsto> PlainCallable (\<lambda>args t. (Inr (PyInt (int (length args))), t)),
      ''on_boom'' \<mapsto> PlainCallable (\<lambda>args t. (Inl (AppError ''boom''), t)),
      ''on_fail'' \<mapsto> CoroutineFunction (\<lambda>args t. (Inl (AppError ''fail''), t + 1)),
      ''on_slow'' \<mapsto> CoroutineFunction (\<lambda>args t. (Inl CancelledError, t + 1))]"

definition demo_namespace :: "nat AsyncNamespace" where
  "demo_namespace =
     \<lparr>ns_attrs = demo_attrs, ns_namespace = PyStr ''/chat'', ns_server = demo_owner\<rparr>"

definition demo_client_namespace :: "nat AsyncClientNamespace" where
  "demo_client_namespace =
     \<lparr>cns_attrs = demo_attrs, cns_namespace = PyStr ''/chat'', cns_client = demo_owner\<rparr>"

definition demo_state :: "nat pystate" where
  "demo_state = \<lparr>invoked = [], forwarded = [], world = 0\<rparr>"

section \<open>Construction of the Kafka manager\<close>

text \<open>
  C5. Without the kafka client library the constructor raises its \<open>RuntimeError\<close> having
  done nothing: the base class is not initialised and no producer or consumer is created.
  With the library the constructor passes that branch: it initialises the base class
  first, and no \<open>RuntimeError\<close> leaves it.
\<close>

theorem missing_kafka_fails_fast:
  "(\<not> kafka env \<longrightarrow>
      KafkaManager_init env url ch wo =
        (Inl (RuntimeError (''kafka-python package is not installed '' @
                            ''(Run \"pip install kafka-python\" in your '' @
                            ''virtualenv).'')), []))
   \<and> (kafka env \<longrightarrow>
        (\<exists>rest. snd (KafkaManager_init env url ch wo) = SuperInit ch wo # rest)
      \<and> (\<forall>msg. fst (KafkaManager_init env url ch wo) \<noteq> Inl (RuntimeError msg)))"
  by (simp add: KafkaManager_init_def new_KafkaProducer_def new_KafkaConsumer_def
      PubSubManager_init_def Let_def split: sum.splits)

theorem missing_kafka_fails_fast_witness:
  "\<not> kafka \<lparr>kafka = False, reachable = (\<lambda>a. True)\<rparr>
   \<and> KafkaManager_init \<lparr>kafka = False, reachable = (\<lambda>a. True)\<rparr> ''kafka://'' ''socketioN'' False =
        (Inl (RuntimeError (''kafka-python package is not installed '' @
                            ''(Run \"pip install kafka-python\" in your '' @
                            ''virtualenv).'')), [])
   \<and> kafka demo_env
   \<and> (\<exists>rest. snd (KafkaManager_init demo_env ''kafka://'' ''socketioN'' False) =
               SuperInit ''socketioN'' False # rest)"
  using missing_kafka_fails_fast [of "\<lparr>kafka = False, reachable = (\<lambda>a. True)\<rparr>" "''kafka://''" "''socketioN''" False]
    missing_kafka_fails_fast [of demo_env "''kafka://''" "''socketioN''" False]
  by (simp add: demo_env_def)

text \<open>
  C10. With the library present, the address the producer is created with is
  \<open>localhost:9092\<close> when the url is exactly \<open>kafka://\<close>, and the url without its first
  eight characters for every other url, whatever its scheme or length. A manager that is
  built stores that address and connects its producer and its consumer to it.
\<close>

theorem kafka_url_derivation:
  assumes "kafka env"
  shows "take 2 (snd (KafkaManager_init env url ch wo)) =
           [SuperInit ch wo,
            NewProducer (if url = ''kafka://'' then ''localhost:9092'' else drop 8 url)]
       \<and> (case fst (KafkaManager_init env url ch wo) of
             Inl e \<Rightarrow> True
           | Inr mgr \<Rightarrow>
               kafka_url mgr = (if url = ''kafka://'' then ''localhost:9092'' else drop 8 url)
             \<and> producer_servers (producer mgr) = kafka_url mgr
             \<and> consumer_servers (consumer mgr) = kafka_url mgr)"
  using assms
  by (simp add: KafkaManager_init_def new_KafkaProducer_def new_KafkaConsumer_def
      PubSubManager_init_def Let_def)

theorem kafka_url_derivation_witness:
  "kafka demo_env
   \<and> take 2 (snd (KafkaManager_init demo_env ''kafka://broker:9092'' ''socketioN'' False)) =
       [SuperInit ''socketioN'' False, NewProducer ''broker:9092'']
   \<and> take 2 (snd (KafkaManager_init demo_env ''kafka://'' ''socketioN'' False)) =
       [SuperInit ''socketioN'' False, NewProducer ''localhost:9092'']
   \<and> take 2 (snd (KafkaManager_init demo_env ''redis://host'' ''socketioN'' False)) =
       [SuperInit ''socketioN'' False, NewProducer ''host'']
   \<and> take 2 (snd (KafkaManager_init demo_env ''kafka:/'' ''socketioN'' False)) =
       [SuperInit ''socketioN'' False, NewProducer '''']"
proof -
  have k: "kafka demo_env" by (simp add: demo_env_def)
  show ?thesis
    using k
      kafka_url_derivation [OF k, of "''kafka://broker:9092''" "''socketioN''" False]
      kafka_url_derivation [OF k, of "''kafka://''" "''socketioN''" False]
      kafka_url_derivation [OF k, of "''redis://host''" "''socketioN''" False]
      kafka_url_derivation [OF k, of "''kafka:/''" "''socketioN''" False]
    by simp
qed

section \<open>Publishing and listening\<close>

lemma listen_loop_yield_origin:
  "y \<in> set (fst (listen_loop pickle ch ms)) \<Longrightarrow>
     \<exists>m \<in> set ms. topic m = ch \<and> loads pickle (msg_value m) = Inr y"
proof (induction ms arbitrary: y)
  case Nil
  then show ?case by simp
next
  case (Cons m ms)
  show ?case
  proof (cases "topic m = ch")
    case False
    with Cons show ?thesis by auto
  next
    case True
    show ?thesis
    proof (cases "loads pickle (msg_value m)")
      case (Inl e)
      with True Cons.prems show ?thesis by simp
    next
      case (Inr v)
      with True Cons.prems have "y = v \<or> y \<in> set (fst (listen_loop pickle ch ms))"
        by (auto split: prod.splits)
      then show ?thesis
      proof
        assume "y = v"
        with True Inr show ?thesis by simp
      next
        assume "y \<in> set (fst (listen_loop pickle ch ms))"
        from Cons.IH [OF this] show ?thesis by auto
      qed
    qed
  qed
qed

lemma listen_loop_append_ok:
  "listen_loop pickle ch pre = (ys, None) \<Longrightarrow>
   listen_loop pickle ch (pre @ post) =
     (ys @ fst (listen_loop pickle ch post), snd (listen_loop pickle ch post))"
proof (induction pre arbitrary: ys)
  case Nil
  then show ?case by simp
next
  case (Cons m pre)
  show ?case
  proof (cases "topic m = ch")
    case False
    with Cons show ?thesis by simp
  next
    case True
    show ?thesis
    proof (cases "loads pickle (msg_value m)")
      case (Inl e)
      with True Cons.prems show ?thesis by simp
    next
      case (Inr v)
      obtain zs r where zr: "listen_loop pickle ch pre = (zs, r)"
        by (cases "listen_loop pickle ch pre")
      with True Inr Cons.prems have "r = None" "ys = v # zs" by auto
      with zr Cons.IH [of zs] True Inr show ?thesis by simp
    qed
  qed
qed

lemma listen_loop_raises:
  "topic m = ch \<Longrightarrow> loads pickle (msg_value m) = Inl e \<Longrightarrow>
   listen_loop pickle ch pre = (ys, None) \<Longrightarrow>
   listen_loop pickle ch (pre @ m # post) = (ys, Some e)"
  using listen_loop_append_ok [of pickle ch pre ys "m # post"] by simp

lemma publish_delivers:
  "dumps pickle v = Inr bs \<Longrightarrow> up b \<Longrightarrow>
   KafkaManager_publish pickle self v b =
     Inr (b\<lparr>pending := [],
           delivered := delivered b @ pending b @ [\<lparr>topic = channel self, msg_value = bs\<rparr>]\<rparr>)"
  by (simp add: KafkaManager_publish_def producer_send_def producer_flush_def)

lemma listen_append_one:
  assumes "KafkaManager_listen pickle self pre = (ys, None)"
      and "topic m = channel self" and "loads pickle (msg_value m) = Inr v"
  shows "KafkaManager_listen pickle self (pre @ [m]) = (ys @ [v], None)"
  using assms listen_loop_append_ok [of pickle "channel self" pre ys "[m]"]
  by (simp add: KafkaManager_listen_def KafkaManager_kafka_listen_def)

text \<open>
  C6. Every value that \<open>_listen\<close> yields is the unpickled byte value of a consumed
  record whose topic is the manager's channel; a record of another topic yields nothing.
\<close>

theorem listen_yields_channel_messages:
  "y \<in> set (fst (KafkaManager_listen pickle self consumed)) \<Longrightarrow>
     \<exists>m \<in> set consumed. topic m = channel self \<and> loads pickle (msg_value m) = Inr y"
  unfolding KafkaManager_listen_def KafkaManager_kafka_listen_def
  by (rule listen_loop_yield_origin)

theorem listen_yields_channel_messages_witness:
  "PyStr ''hi'' \<in> set (fst (KafkaManager_listen demo_pickle (demo_manager False)
       [\<lparr>topic = ''other'', msg_value = ''Sno''\<rparr>, \<lparr>topic = ''socketioN'', msg_value = ''Shi''\<rparr>]))
   \<and> (\<exists>m \<in> set [\<lparr>topic = ''other'', msg_value = ''Sno''\<rparr>, \<lparr>topic = ''socketioN'', msg_value = ''Shi''\<rparr>].
         topic m = channel (demo_manager False) \<and> loads demo_pickle (msg_value m) = Inr (PyStr ''hi''))
   \<and> PyStr ''no'' \<notin> set (fst (KafkaManager_listen demo_pickle (demo_manager False)
       [\<lparr>topic = ''other'', msg_value = ''Sno''\<rparr>, \<lparr>topic = ''socketioN'', msg_value = ''Shi''\<rparr>]))"
proof -
  have y: "PyStr ''hi'' \<in> set (fst (KafkaManager_listen demo_pickle (demo_manager False)
       [\<lparr>topic = ''other'', msg_value = ''Sno''\<rparr>, \<lparr>topic = ''socketioN'', msg_value = ''Shi''\<rparr>]))"
    by (simp add: KafkaManager_listen_def KafkaManager_kafka_listen_def demo_pickle_def
        demo_manager_def)
  have n: "PyStr ''no'' \<notin> set (fst (KafkaManager_listen demo_pickle (demo_manager False)
       [\<lparr>topic = ''other'', msg_value = ''Sno''\<rparr>, \<lparr>topic = ''socketioN'', msg_value = ''Shi''\<rparr>]))"
    by (simp add: KafkaManager_listen_def KafkaManager_kafka_listen_def demo_pickle_def
        demo_manager_def)
  from y n listen_yields_channel_messages [OF y] show ?thesis by blast
qed

lemma dec_enc_nat: "dec_nat (enc_nat n @ r) = Some (n, r)"
proof (induction n rule: enc_nat.induct)
  case (1 n)
  show ?case
  proof (cases "n < 128")
    case True
    then show ?thesis by (simp add: enc_nat.simps [of n])
  next
    case False
    have m: "(128 + n mod 128) mod 256 = 128 + n mod 128"
      by simp
    from False "1.IH" m show ?thesis
      by (simp add: enc_nat.simps [of n])
  qed
qed

lemma dec_items_concat:
  assumes "\<And>x r. x \<in> set xs \<Longrightarrow> d (e x @ r) = Some (x, r)"
  shows "dec_items d (length xs) (concat (map e xs) @ r) = Some (xs, r)"
  using assms by (induction xs arbitrary: r) simp_all

lemma length_le_concat:
  "x \<in> set xs \<Longrightarrow> length (e x) \<le> length (concat (map e xs))"
  by (induction xs) auto

lemma decode_encode:
  "picklable v \<Longrightarrow> length (encode v) \<le> f \<Longrightarrow> decode f (encode v @ r) = Some (v, r)"
proof (induction v arbitrary: f r)
  case PyNone
  then show ?case by (cases f) simp_all
next
  case (PyBool b)
  then show ?case by (cases f; cases b) simp_all
next
  case (PyInt i)
  then show ?case by (cases f; cases "0 \<le> i") (simp_all add: dec_enc_nat)
next
  case (PyStr s)
  then show ?case by (cases f) (simp_all add: dec_enc_nat)
next
  case (PyBytes b)
  then show ?case by (cases f) (simp_all add: dec_enc_nat)
next
  case (PyList xs)
  from PyList.prems obtain g where f: "f = Suc g" by (cases f) simp_all
  have each: "decode g (encode x @ r') = Some (x, r')" if "x \<in> set xs" for x r'
  proof -
    from that PyList.prems(1) have p: "picklable x" by (simp add: list_all_iff)
    from that have "length (encode x) \<le> length (concat (map encode xs))"
      by (rule length_le_concat)
    with PyList.prems(2) f have "length (encode x) \<le> g" by simp
    with PyList.IH [OF that p] show ?thesis .
  qed
  have "dec_items (decode g) (length xs) (concat (map encode xs) @ r) = Some (xs, r)"
    by (rule dec_items_concat) (rule each)
  with f show ?case by (simp add: dec_enc_nat)
next
  case (PyDict kvs)
  from PyDict.prems obtain g where f: "f = Suc g" by (cases f) simp_all
  let ?e = "\<lambda>(k, v). encode k @ encode v"
  have each: "dec_pair (decode g) (?e kv @ r') = Some (kv, r')" if "kv \<in> set kvs" for kv r'
  proof -
    obtain k v where kv: "kv = (k, v)" by (cases kv)
    from that PyDict.prems(1) kv have p: "picklable k" "picklable v"
      by (auto simp: list_all_iff)
    from that have "length (?e kv) \<le> length (concat (map ?e kvs))"
      by (rule length_le_concat)
    with PyDict.prems(2) f kv have le: "length (encode k) \<le> g" "length (encode v) \<le> g"
      by simp_all
    from that kv have mk: "k \<in> Basic_BNFs.fsts kv" and mv: "v \<in> Basic_BNFs.snds kv"
      by simp_all
    from PyDict.IH(1) [OF that mk p(1) le(1)]
    have dk: "decode g (encode k @ (encode v @ r')) = Some (k, encode v @ r')" .
    from PyDict.IH(2) [OF that mv p(2) le(2)]
    have dv: "decode g (encode v @ r') = Some (v, r')" .
    from dk dv kv show ?thesis by (simp add: dec_pair_def)
  qed
  have "dec_items (dec_pair (decode g)) (length kvs) (concat (map ?e kvs) @ r) = Some (kvs, r)"
    by (rule dec_items_concat) (rule each)
  with f show ?case by (simp add: dec_enc_nat)
next
  case (PyObj n)
  then show ?case by simp
qed

lemma pickle_loads_dumps:
  "picklable v \<Longrightarrow> pickle_dumps v = Inr (encode v) \<and> pickle_loads (encode v) = Inr v"
  using decode_encode [of v "length (encode v)" "[]"]
  by (simp add: pickle_dumps_def pickle_loads_def)

text \<open>
  C7. Round trip. The serializer reads back every supported payload it writes. So
  publishing a supported payload \<open>v\<close> on a reachable broker delivers one record on the
  manager's channel, and a peer on the same channel with the same serializer, whose
  \<open>_listen\<close> has yielded \<open>ys\<close> so far, yields \<open>v\<close> itself next when it receives that
  record.
\<close>

theorem publish_listen_round_trip:
  assumes "picklable v"
      and "channel peer = channel self" and "up b"
      and "KafkaManager_listen pickle_codec peer pre = (ys, None)"
  shows "\<exists>bs b'. dumps pickle_codec v = Inr bs
            \<and> loads pickle_codec bs = Inr v
            \<and> KafkaManager_publish pickle_codec self v b = Inr b'
            \<and> delivered b' = delivered b @ pending b @ [\<lparr>topic = channel self, msg_value = bs\<rparr>]
            \<and> KafkaManager_listen pickle_codec peer
                 (pre @ [\<lparr>topic = channel self, msg_value = bs\<rparr>]) = (ys @ [v], None)"
proof -
  let ?m = "\<lparr>topic = channel self, msg_value = encode v\<rparr>"
  from pickle_loads_dumps [OF assms(1)]
  have d: "dumps pickle_codec v = Inr (encode v)"
    and l: "loads pickle_codec (encode v) = Inr v"
    by (simp_all add: pickle_codec_def)
  have "KafkaManager_listen pickle_codec peer (pre @ [?m]) = (ys @ [v], None)"
    using assms(2,4) l by (intro listen_append_one) simp_all
  with publish_delivers [OF d assms(3), of self] d l show ?thesis by simp
qed

theorem publish_listen_round_trip_witness:
  "picklable (PyDict [(PyStr ''room'', PyStr ''lobby''),
                      (PyStr ''data'', PyList [PyInt (- 300), PyBytes ''x'', PyNone])])
   \<and> channel (demo_manager False) = channel (demo_manager True)
   \<and> up \<lparr>up = True, pending = [], delivered = []\<rparr>
   \<and> KafkaManager_listen pickle_codec (demo_manager False)
        [\<lparr>topic = ''other'', msg_value = []\<rparr>] = ([], None)
   \<and> (\<exists>bs b'.
          dumps pickle_codec (PyDict [(PyStr ''room'', PyStr ''lobby''),
                      (PyStr ''data'', PyList [PyInt (- 300), PyBytes ''x'', PyNone])]) = Inr bs
        \<and> KafkaManager_publish pickle_codec (demo_manager True)
              (PyDict [(PyStr ''room'', PyStr ''lobby''),
                       (PyStr ''data'', PyList [PyInt (- 300), PyBytes ''x'', PyNone])])
              \<lparr>up = True, pending = [], delivered = []\<rparr> = Inr b'
        \<and> delivered b' = [\<lparr>topic = ''socketioN'', msg_value = bs\<rparr>]
        \<and> KafkaManager_listen pickle_codec (demo_manager False)
              [\<lparr>topic = ''other'', msg_value = []\<rparr>,
               \<lparr>topic = ''socketioN'', msg_value = bs\<rparr>]
            = ([PyDict [(PyStr ''room'', PyStr ''lobby''),
                        (PyStr ''data'', PyList [PyInt (- 300), PyBytes ''x'', PyNone])]], None))"
proof -
  let ?v = "PyDict [(PyStr ''room'', PyStr ''lobby''),
                    (PyStr ''data'', PyList [PyInt (- 300), PyBytes ''x'', PyNone])]"
  have a: "picklable ?v" by simp
  have c: "channel (demo_manager False) = channel (demo_manager True)"
    by (simp add: demo_manager_def)
  have d: "up \<lparr>up = True, pending = [], delivered = []\<rparr>" by simp
  have e: "KafkaManager_listen pickle_codec (demo_manager False)
        [\<lparr>topic = ''other'', msg_value = []\<rparr>] = ([], None)"
    by (simp add: KafkaManager_listen_def KafkaManager_kafka_listen_def demo_manager_def)
  have ch: "channel (demo_manager True) = ''socketioN''"
    by (simp add: demo_manager_def)
  from publish_listen_round_trip [OF a c d e] obtain bs b' where
    r1: "dumps pickle_codec ?v = Inr bs" and
    r2: "KafkaManager_publish pickle_codec (demo_manager True) ?v
           \<lparr>up = True, pending = [], delivered = []\<rparr> = Inr b'" and
    r3: "delivered b' = delivered \<lparr>up = True, pending = [], delivered = []\<rparr> @
           pending \<lparr>up = True, pending = [], delivered = []\<rparr> @
           [\<lparr>topic = channel (demo_manager True), msg_value = bs\<rparr>]" and
    r4: "KafkaManager_listen pickle_codec (demo_manager False)
           ([\<lparr>topic = ''other'', msg_value = []\<rparr>] @
            [\<lparr>topic = channel (demo_manager True), msg_value = bs\<rparr>]) = ([] @ [?v], None)"
    by blast
  from r3 ch have r3': "delivered b' = [\<lparr>topic = ''socketioN'', msg_value = bs\<rparr>]"
    by simp
  from r4 ch have r4': "KafkaManager_listen pickle_codec (demo_manager False)
           [\<lparr>topic = ''other'', msg_value = []\<rparr>,
            \<lparr>topic = ''socketioN'', msg_value = bs\<rparr>] = ([?v], None)"
    by simp
  from a c d e r1 r2 r3' r4' show ?thesis by blast
qed

text \<open>
  C8, as the spec states it, fails: a record of the channel that does not unpickle is not
  skipped. Between two well-formed records it ends \<open>_listen\<close> with the exception of
  \<open>pickle.loads\<close>, and the second well-formed record is never yielded.
\<close>

theorem malformed_message_counterexample:
  "KafkaManager_listen demo_pickle (demo_manager False)
     [\<lparr>topic = ''socketioN'', msg_value = ''Sfirst''\<rparr>,
      \<lparr>topic = ''socketioN'', msg_value = []\<rparr>,
      \<lparr>topic = ''socketioN'', msg_value = ''Ssecond''\<rparr>]
   = ([PyStr ''first''], Some EOFError)
   \<and> loads demo_pickle ''Ssecond'' = Inr (PyStr ''second'')
   \<and> loads demo_pickle [] = Inl EOFError"
  by (simp add: KafkaManager_listen_def KafkaManager_kafka_listen_def demo_pickle_def
      demo_manager_def)

text \<open>
  C8, amended. When a record of the channel fails to unpickle, the exception of
  \<open>pickle.loads\<close> leaves \<open>_listen\<close>: the values yielded before it stay yielded, and nothing
  received after it is yielded, whatever follows.
\<close>

theorem malformed_message_ends_listen:
  assumes "topic m = channel self" and "loads pickle (msg_value m) = Inl e"
      and "KafkaManager_listen pickle self pre = (ys, None)"
  shows "KafkaManager_listen pickle self (pre @ m # post) = (ys, Some e)"
  using assms listen_loop_raises [of m "channel self" pickle e pre ys post]
  by (simp add: KafkaManager_listen_def KafkaManager_kafka_listen_def)

theorem malformed_message_ends_listen_witness:
  "topic \<lparr>topic = ''socketioN'', msg_value = []\<rparr> = channel (demo_manager False)
   \<and> loads demo_pickle (msg_value \<lparr>topic = ''socketioN'', msg_value = []\<rparr>) = Inl EOFError
   \<and> KafkaManager_listen demo_pickle (demo_manager False)
        [\<lparr>topic = ''socketioN'', msg_value = ''Sfirst''\<rparr>] = ([PyStr ''first''], None)
   \<and> KafkaManager_listen demo_pickle (demo_manager False)
        ([\<lparr>topic = ''socketioN'', msg_value = ''Sfirst''\<rparr>] @
          \<lparr>topic = ''socketioN'', msg_value = []\<rparr> #
          [\<lparr>topic = ''socketioN'', msg_value = ''Ssecond''\<rparr>])
       = ([PyStr ''first''], Some EOFError)"
proof -
  have a: "topic \<lparr>topic = ''socketioN'', msg_value = []\<rparr> = channel (demo_manager False)"
    by (simp add: demo_manager_def)
  have b: "loads demo_pickle (msg_value \<lparr>topic = ''socketioN'', msg_value = []\<rparr>) = Inl EOFError"
    by (simp add: demo_pickle_def)
  have c: "KafkaManager_listen demo_pickle (demo_manager False)
        [\<lparr>topic = ''socketioN'', msg_value = ''Sfirst''\<rparr>] = ([PyStr ''first''], None)"
    by (simp add: KafkaManager_listen_def KafkaManager_kafka_listen_def demo_pickle_def
        demo_manager_def)
  from malformed_message_ends_listen [OF a b c] a b c show ?thesis by blast
qed

text \<open>
  C9. A manager constructed with \<open>write_only = True\<close> carries the flag, so initialising
  it does not start the consumer loop and nothing that its consumer receives is applied
  locally. \<open>_publish\<close> does not read the flag: it does what it does on the same manager
  with the flag cleared, that is, it delivers the pickled data on the channel when the
  broker is reachable, and otherwise raises what \<open>pickle.dumps\<close> or the producer raises.
\<close>

theorem write_only_manager_only_publishes:
  assumes "fst (KafkaManager_init env url ch True) = Inr self"
  shows "write_only self
       \<and> \<not> loop_started (PubSubManager_initialize self new_process)
       \<and> applied (run_background pickle self consumed
                    (PubSubManager_initialize self new_process)) = []
       \<and> KafkaManager_publish pickle self data b =
           KafkaManager_publish pickle (self\<lparr>write_only := False\<rparr>) data b
       \<and> (case dumps pickle data of
             Inl e \<Rightarrow> KafkaManager_publish pickle self data b = Inl e
           | Inr bs \<Rightarrow>
               KafkaManager_publish pickle self data b =
                 (if up b then
                    Inr (b\<lparr>pending := [],
                          delivered := delivered b @ pending b @
                                       [\<lparr>topic = ch, msg_value = bs\<rparr>]\<rparr>)
                  else Inl NoBrokersAvailable))"
proof -
  from assms have wo: "write_only self" and chn: "channel self = ch"
    by (auto simp: KafkaManager_init_def new_KafkaProducer_def new_KafkaConsumer_def
        PubSubManager_init_def Let_def split: if_splits sum.splits)
  have st: "\<not> loop_started (PubSubManager_initialize self new_process)"
    using wo by (simp add: PubSubManager_initialize_def new_process_def)
  have ap: "applied (run_background pickle self consumed
                    (PubSubManager_initialize self new_process)) = []"
    using wo by (simp add: run_background_def PubSubManager_initialize_def new_process_def)
  have eq: "KafkaManager_publish pickle self data b =
           KafkaManager_publish pickle (self\<lparr>write_only := False\<rparr>) data b"
    by (simp add: KafkaManager_publish_def split: sum.splits)
  have pb: "(case dumps pickle data of
             Inl e \<Rightarrow> KafkaManager_publish pickle self data b = Inl e
           | Inr bs \<Rightarrow>
               KafkaManager_publish pickle self data b =
                 (if up b then
                    Inr (b\<lparr>pending := [],
                          delivered := delivered b @ pending b @
                                       [\<lparr>topic = ch, msg_value = bs\<rparr>]\<rparr>)
                  else Inl NoBrokersAvailable))"
    using chn
    by (simp add: KafkaManager_publish_def producer_send_def producer_flush_def
        split: sum.splits)
  from wo st ap eq pb show ?thesis by simp
qed

theorem write_only_manager_only_publishes_witness:
  "fst (KafkaManager_init demo_env ''kafka://'' ''socketioN'' True) = Inr (demo_manager True)
   \<and> \<not> loop_started (PubSubManager_initialize (demo_manager True) new_process)
   \<and> applied (run_background demo_pickle (demo_manager True)
                [\<lparr>topic = ''socketioN'', msg_value = ''Shello''\<rparr>]
                (PubSubManager_initialize (demo_manager True) new_process)) = []
   \<and> KafkaManager_publish demo_pickle (demo_manager True) (PyStr ''hello'')
        \<lparr>up = True, pending = [], delivered = []\<rparr>
       = Inr \<lparr>up = True, pending = [],
              delivered = [\<lparr>topic = ''socketioN'', msg_value = ''Shello''\<rparr>]\<rparr>
   \<and> applied (run_background demo_pickle (demo_manager False)
                [\<lparr>topic = ''socketioN'', msg_value = ''Shello''\<rparr>]
                (PubSubManager_initialize (demo_manager False) new_process)) = [PyStr ''hello'']"
proof -
  have a: "fst (KafkaManager_init demo_env ''kafka://'' ''socketioN'' True) = Inr (demo_manager True)"
    by (simp add: KafkaManager_init_def demo_env_def demo_manager_def new_KafkaProducer_def
        new_KafkaConsumer_def PubSubManager_init_def Let_def)
  have d: "dumps demo_pickle (PyStr ''hello'') = Inr ''Shello''"
    by (simp add: demo_pickle_def)
  have r: "applied (run_background demo_pickle (demo_manager False)
                [\<lparr>topic = ''socketioN'', msg_value = ''Shello''\<rparr>]
                (PubSubManager_initialize (demo_manager False) new_process)) = [PyStr ''hello'']"
    by (simp add: run_background_def PubSubManager_initialize_def PubSubManager_thread_def
        new_process_def KafkaManager_listen_def KafkaManager_kafka_listen_def demo_pickle_def
        demo_manager_def)
  have p: "KafkaManager_publish demo_pickle (demo_manager True) (PyStr ''hello'')
        \<lparr>up = True, pending = [], delivered = []\<rparr>
       = Inr \<lparr>up = True, pending = [],
              delivered = [\<lparr>topic = ''socketioN'', msg_value = ''Shello''\<rparr>]\<rparr>"
    by (simp add: KafkaManager_publish_def producer_send_def producer_flush_def
        demo_pickle_def demo_manager_def)
  from write_only_manager_only_publishes [OF a, of demo_pickle
      "[\<lparr>topic = ''socketioN'', msg_value = ''Shello''\<rparr>]" "PyStr ''hello''"
      "\<lparr>up = True, pending = [], delivered = []\<rparr>"] a r p
  show ?thesis by blast
qed

section \<open>Dispatch of events to handlers\<close>

text \<open>
  C1. When the namespace object has no attribute \<open>on_\<close> + event, \<open>trigger_event\<close> of
  both classes returns \<open>None\<close> and leaves the state as it was: no handler is invoked, no
  call is made on the owner, the world is unchanged.
\<close>

theorem unhandled_event_ignored:
  "(ns_attrs self (''on_'' @ event) = None \<longrightarrow>
      AsyncNamespace_trigger_event self event args st = (Inr PyNone, st))
   \<and> (cns_attrs cself (''on_'' @ event) = None \<longrightarrow>
      AsyncClientNamespace_trigger_event cself event args st = (Inr PyNone, st))"
  by (simp add: AsyncNamespace_trigger_event_def AsyncClientNamespace_trigger_event_def)

theorem unhandled_event_ignored_witness:
  "ns_attrs demo_namespace (''on_'' @ ''typing'') = None
   \<and> AsyncNamespace_trigger_event demo_namespace ''typing'' [PyStr ''hi''] demo_state
       = (Inr PyNone, demo_state)
   \<and> cns_attrs demo_client_namespace (''on_'' @ ''typing'') = None
   \<and> AsyncClientNamespace_trigger_event demo_client_namespace ''typing'' [PyStr ''hi''] demo_state
       = (Inr PyNone, demo_state)"
proof -
  have a: "ns_attrs demo_namespace (''on_'' @ ''typing'') = None"
    by (simp add: demo_namespace_def demo_attrs_def)
  have b: "cns_attrs demo_client_namespace (''on_'' @ ''typing'') = None"
    by (simp add: demo_client_namespace_def demo_attrs_def)
  from unhandled_event_ignored [of demo_namespace "''typing''" "[PyStr ''hi'']" demo_state
      demo_client_namespace] a b
  show ?thesis by blast
qed

text \<open>
  C2. An exception raised by the matching handler leaves \<open>trigger_event\<close> unchanged,
  but for one case: \<open>CancelledError\<close> out of an awaited coroutine handler is caught, and
  \<open>trigger_event\<close> returns \<open>None\<close>. A handler that is not a coroutine function is not
  guarded: its \<open>CancelledError\<close> propagates like any other exception.
\<close>

theorem handler_fault_propagates_except_cancellation:
  assumes "fst (h args (world st)) = Inl e"
  shows "(ns_attrs self (''on_'' @ event) = Some (PlainCallable h) \<longrightarrow>
            fst (AsyncNamespace_trigger_event self event args st) = Inl e)
       \<and> (ns_attrs self (''on_'' @ event) = Some (CoroutineFunction h) \<longrightarrow>
            fst (AsyncNamespace_trigger_event self event args st) =
              (if e = CancelledError then Inr PyNone else Inl e))
       \<and> (cns_attrs cself (''on_'' @ event) = Some (PlainCallable h) \<longrightarrow>
            fst (AsyncClientNamespace_trigger_event cself event args st) = Inl e)
       \<and> (cns_attrs cself (''on_'' @ event) = Some (CoroutineFunction h) \<longrightarrow>
            fst (AsyncClientNamespace_trigger_event cself event args st) =
              (if e = CancelledError then Inr PyNone else Inl e))"
  using assms
  by (auto simp: AsyncNamespace_trigger_event_def AsyncClientNamespace_trigger_event_def
      invoke_def except_CancelledError_def split: prod.splits)

theorem handler_fault_propagates_except_cancellation_witness:
  "fst ((\<lambda>args t. (Inl (AppError ''boom''), t)) [PyStr ''hi''] (world demo_state))
     = (Inl (AppError ''boom'') :: exn + pyval)
   \<and> ns_attrs demo_namespace (''on_'' @ ''boom'') =
       Some (PlainCallable (\<lambda>args t. (Inl (AppError ''boom''), t)))
   \<and> fst (AsyncNamespace_trigger_event demo_namespace ''boom'' [PyStr ''hi''] demo_state)
       = Inl (AppError ''boom'')
   \<and> fst ((\<lambda>args t. (Inl CancelledError, t + 1)) [PyStr ''hi''] (world demo_state))
     = (Inl CancelledError :: exn + pyval)
   \<and> cns_attrs demo_client_namespace (''on_'' @ ''slow'') =
       Some (CoroutineFunction (\<lambda>args t. (Inl CancelledError, t + 1)))
   \<and> fst (AsyncClientNamespace_trigger_event demo_client_namespace ''slow'' [PyStr ''hi'']
            demo_state) = Inr PyNone
   \<and> fst (AsyncNamespace_trigger_event demo_namespace ''fail'' [PyStr ''hi''] demo_state)
       = Inl (AppError ''fail'')"
proof -
  let ?boom = "\<lambda>(args :: pyval list) (t :: nat). (Inl (AppError ''boom'') :: exn + pyval, t)"
  let ?slow = "\<lambda>(args :: pyval list) (t :: nat). (Inl CancelledError :: exn + pyval, t + 1)"
  have a: "fst (?boom [PyStr ''hi''] (world demo_state)) = Inl (AppError ''boom'')"
    by simp
  have b: "ns_attrs demo_namespace (''on_'' @ ''boom'') = Some (PlainCallable ?boom)"
    by (simp add: demo_namespace_def demo_attrs_def)
  have c: "fst (?slow [PyStr ''hi''] (world demo_state)) = Inl CancelledError"
    by simp
  have d: "cns_attrs demo_client_namespace (''on_'' @ ''slow'') = Some (CoroutineFunction ?slow)"
    by (simp add: demo_client_namespace_def demo_attrs_def)
  have f: "fst (AsyncNamespace_trigger_event demo_namespace ''fail'' [PyStr ''hi''] demo_state)
       = Inl (AppError ''fail'')"
    by (simp add: AsyncNamespace_trigger_event_def demo_namespace_def demo_attrs_def
        invoke_def except_CancelledError_def)
  from handler_fault_propagates_except_cancellation
         [where h = ?boom and args = "[PyStr ''hi'']" and st = demo_state
            and e = "AppError ''boom''" and self = demo_namespace and event = "''boom''"
            and cself = demo_client_namespace] a b
  have r1: "fst (AsyncNamespace_trigger_event demo_namespace ''boom'' [PyStr ''hi''] demo_state)
       = Inl (AppError ''boom'')"
    by blast
  from handler_fault_propagates_except_cancellation
         [where h = ?slow and args = "[PyStr ''hi'']" and st = demo_state
            and e = CancelledError and self = demo_namespace and event = "''slow''"
            and cself = demo_client_namespace] c d
  have r2: "fst (AsyncClientNamespace_trigger_event demo_client_namespace ''slow''
              [PyStr ''hi''] demo_state) = Inr PyNone"
    by simp
  from a b c d f r1 r2 show ?thesis by blast
qed

text \<open>
  C3. With a matching handler, \<open>trigger_event\<close> invokes that handler exactly once, with
  exactly the positional arguments given, and leaves the world as the handler left it;
  what the handler returns (for a coroutine handler, the awaited result) is returned
  unchanged. The example is the spec's scenario: \<open>on_message\<close> sleeps, then returns
  \<open>"ack"\<close>, and \<open>trigger_event("message", "hi")\<close> yields \<open>"ack"\<close>.
\<close>

theorem trigger_event_invokes_handler_once:
  assumes "a = CoroutineFunction h \<or> a = PlainCallable h"
      and "h args (world st) = (r, w)"
  shows "(ns_attrs self (''on_'' @ event) = Some a \<longrightarrow>
            snd (AsyncNamespace_trigger_event self event args st) =
              st\<lparr>invoked := invoked st @ [(''on_'' @ event, args)], world := w\<rparr>
          \<and> (\<forall>v. r = Inr v \<longrightarrow>
                fst (AsyncNamespace_trigger_event self event args st) = Inr v))
       \<and> (cns_attrs cself (''on_'' @ event) = Some a \<longrightarrow>
            snd (AsyncClientNamespace_trigger_event cself event args st) =
              st\<lparr>invoked := invoked st @ [(''on_'' @ event, args)], world := w\<rparr>
          \<and> (\<forall>v. r = Inr v \<longrightarrow>
                fst (AsyncClientNamespace_trigger_event cself event args st) = Inr v))"
  using assms
  by (auto simp: AsyncNamespace_trigger_event_def AsyncClientNamespace_trigger_event_def
      invoke_def except_CancelledError_def)

theorem trigger_event_invokes_handler_once_witness:
  "ns_attrs demo_namespace (''on_'' @ ''message'') =
     Some (CoroutineFunction (\<lambda>args t. (Inr (PyStr ''ack''), t + 1)))
   \<and> (\<lambda>args t. (Inr (PyStr ''ack''), t + 1)) [PyStr ''hi''] (world demo_state)
       = (Inr (PyStr ''ack'') :: exn + pyval, 1 :: nat)
   \<and> AsyncNamespace_trigger_event demo_namespace ''message'' [PyStr ''hi''] demo_state
       = (Inr (PyStr ''ack''),
          \<lparr>invoked = [(''on_message'', [PyStr ''hi''])], forwarded = [], world = 1\<rparr>)"
proof -
  let ?h = "\<lambda>(args :: pyval list) (t :: nat). (Inr (PyStr ''ack'') :: exn + pyval, t + 1)"
  have a: "ns_attrs demo_namespace (''on_'' @ ''message'') = Some (CoroutineFunction ?h)"
    by (simp add: demo_namespace_def demo_attrs_def)
  have b: "?h [PyStr ''hi''] (world demo_state) = (Inr (PyStr ''ack''), 1)"
    by (simp add: demo_state_def)
  have c: "CoroutineFunction ?h = CoroutineFunction ?h \<or> CoroutineFunction ?h = PlainCallable ?h"
    by simp
  from trigger_event_invokes_handler_once
         [where a = "CoroutineFunction ?h" and h = ?h and args = "[PyStr ''hi'']"
            and st = demo_state and r = "Inr (PyStr ''ack'')" and w = 1
            and self = demo_namespace and event = "''message''"
            and cself = demo_client_namespace] a b c
  have "snd (AsyncNamespace_trigger_event demo_namespace ''message'' [PyStr ''hi''] demo_state)
          = demo_state\<lparr>invoked := invoked demo_state @ [(''on_'' @ ''message'', [PyStr ''hi''])],
                       world := 1\<rparr>"
    and "fst (AsyncNamespace_trigger_event demo_namespace ''message'' [PyStr ''hi''] demo_state)
          = Inr (PyStr ''ack'')"
    by blast+
  then have "AsyncNamespace_trigger_event demo_namespace ''message'' [PyStr ''hi''] demo_state
       = (Inr (PyStr ''ack''),
          \<lparr>invoked = [(''on_message'', [PyStr ''hi''])], forwarded = [], world = 1\<rparr>)"
    by (simp add: prod_eq_iff demo_state_def)
  with a b show ?thesis by blast
qed

section \<open>The namespace facade\<close>

text \<open>
  C4, as the spec states it, fails. An override that Python takes for false is not
  forwarded: \<open>emit\<close> with the override \<open>''\<close> on a namespace bound to \<open>/chat\<close> forwards
  \<open>namespace='/chat'\<close>. And \<open>AsyncClientNamespace.disconnect\<close>, whose docstring says that
  the namespace of the class is used, forwards no namespace at all.
\<close>

theorem facade_namespace_counterexample:
  "forwarded (snd (AsyncNamespace_emit demo_namespace (PyStr ''news'') PyNone PyNone PyNone
                     (PyStr '''') PyNone demo_state))
     = [\<lparr>call_method = ''emit'', call_args = [PyStr ''news''],
         call_kwargs = [(''data'', PyNone), (''room'', PyNone), (''skip_sid'', PyNone),
                        (''namespace'', PyStr ''/chat''), (''callback'', PyNone)]\<rparr>]
   \<and> PyStr ''/chat'' \<noteq> PyStr ''''
   \<and> cns_namespace demo_client_namespace = PyStr ''/chat''
   \<and> forwarded (snd (AsyncClientNamespace_disconnect demo_client_namespace demo_state))
     = [\<lparr>call_method = ''disconnect'', call_args = [], call_kwargs = []\<rparr>]"
  by (simp add: AsyncNamespace_emit_def AsyncClientNamespace_disconnect_def owner_call_def
      py_or_def demo_namespace_def demo_client_namespace_def demo_state_def demo_owner_def)

text \<open>
  C4, amended. Every facade method of \<open>AsyncNamespace\<close> (emit, send, close\_room,
  get\_session, save\_session, session, disconnect) and \<open>emit\<close> and \<open>send\<close> of
  \<open>AsyncClientNamespace\<close> make exactly one call on the owner, the method of the same name,
  with \<open>namespace\<close> equal to the override when the override is true in Python's sense
  (a non-empty string) and equal to the bound namespace otherwise (no override, \<open>None\<close>
  or the empty string), and with every other argument as given. In each case the owner's
  result is the facade's result.
\<close>

theorem facade_forwards_with_namespace:
  "AsyncNamespace_emit self event data room skip_sid s_namespace callback st =
     owner_call (ns_server self)
       \<lparr>call_method = ''emit'', call_args = [event],
        call_kwargs = [(''data'', data), (''room'', room), (''skip_sid'', skip_sid),
          (''namespace'', if truthy s_namespace then s_namespace else ns_namespace self),
          (''callback'', callback)]\<rparr> st
   \<and> AsyncNamespace_send self data room skip_sid s_namespace callback st =
     owner_call (ns_server self)
       \<lparr>call_method = ''send'', call_args = [data],
        call_kwargs = [(''room'', room), (''skip_sid'', skip_sid),
          (''namespace'', if truthy s_namespace then s_namespace else ns_namespace self),
          (''callback'', callback)]\<rparr> st
   \<and> AsyncNamespace_close_room self room s_namespace st =
     owner_call (ns_server self)
       \<lparr>call_method = ''close_room'', call_args = [room],
        call_kwargs = [(''namespace'',
          if truthy s_namespace then s_namespace else ns_namespace self)]\<rparr> st
   \<and> AsyncNamespace_get_session self sid s_namespace st =
     owner_call (ns_server self)
       \<lparr>call_method = ''get_session'', call_args = [sid],
        call_kwargs = [(''namespace'',
          if truthy s_namespace then s_namespace else ns_namespace self)]\<rparr> st
   \<and> AsyncNamespace_save_session self sid session s_namespace st =
     owner_call (ns_server self)
       \<lparr>call_method = ''save_session'', call_args = [sid, session],
        call_kwargs = [(''namespace'',
          if truthy s_namespace then s_namespace else ns_namespace self)]\<rparr> st
   \<and> AsyncNamespace_session self sid s_namespace st =
     owner_call (ns_server self)
       \<lparr>call_method = ''session'', call_args = [sid],
        call_kwargs = [(''namespace'',
          if truthy s_namespace then s_namespace else ns_namespace self)]\<rparr> st
   \<and> AsyncNamespace_disconnect self sid s_namespace st =
     owner_call (ns_server self)
       \<lparr>call_method = ''disconnect'', call_args = [sid],
        call_kwargs = [(''namespace'',
          if truthy s_namespace then s_namespace else ns_namespace self)]\<rparr> st
   \<and> AsyncClientNamespace_emit cself event data s_namespace callback st =
     owner_call (cns_client cself)
       \<lparr>call_method = ''emit'', call_args = [event],
        call_kwargs = [(''data'', data),
          (''namespace'', if truthy s_namespace then s_namespace else cns_namespace cself),
          (''callback'', callback)]\<rparr> st
   \<and> AsyncClientNamespace_send cself data s_namespace callback st =
     owner_call (cns_client cself)
       \<lparr>call_method = ''send'', call_args = [data],
        call_kwargs = [
          (''namespace'', if truthy s_namespace then s_namespace else cns_namespace cself),
          (''callback'', callback)]\<rparr> st
   \<and> forwarded (snd (owner_call owner c st)) = forwarded st @ [c]
   \<and> fst (owner_call owner c st) = fst (owner c (world st))
   \<and> world (snd (owner_call owner c st)) = snd (owner c (world st))
   \<and> invoked (snd (owner_call owner c st)) = invoked st"
  by (simp add: AsyncNamespace_emit_def AsyncNamespace_send_def AsyncNamespace_close_room_def
      AsyncNamespace_get_session_def AsyncNamespace_save_session_def AsyncNamespace_session_def
      AsyncNamespace_disconnect_def AsyncClientNamespace_emit_def AsyncClientNamespace_send_def
      py_or_def owner_call_def split: prod.splits)

theorem facade_forwards_with_namespace_witness:
  "forwarded (snd (AsyncNamespace_close_room demo_namespace (PyStr ''lobby'') PyNone demo_state))
     = [\<lparr>call_method = ''close_room'', call_args = [PyStr ''lobby''],
         call_kwargs = [(''namespace'', PyStr ''/chat'')]\<rparr>]
   \<and> forwarded (snd (AsyncNamespace_close_room demo_namespace (PyStr ''lobby'')
                       (PyStr ''/admin'') demo_state))
     = [\<lparr>call_method = ''close_room'', call_args = [PyStr ''lobby''],
         call_kwargs = [(''namespace'', PyStr ''/admin'')]\<rparr>]"
proof -
  have e: "forwarded demo_state = []" by (simp add: demo_state_def)
  have n: "ns_namespace demo_namespace = PyStr ''/chat''" by (simp add: demo_namespace_def)
  from facade_forwards_with_namespace
         [where self = demo_namespace and s_namespace = PyNone and st = demo_state
            and room = "PyStr ''lobby''" and owner = "ns_server demo_namespace"
            and c = "\<lparr>call_method = ''close_room'', call_args = [PyStr ''lobby''],
                     call_kwargs = [(''namespace'', PyStr ''/chat'')]\<rparr>"]
  have a: "forwarded (snd (AsyncNamespace_close_room demo_namespace (PyStr ''lobby'') PyNone demo_state))
     = [\<lparr>call_method = ''close_room'', call_args = [PyStr ''lobby''],
         call_kwargs = [(''namespace'', PyStr ''/chat'')]\<rparr>]"
    using e n by simp
  from facade_forwards_with_namespace
         [where self = demo_namespace and s_namespace = "PyStr ''/admin''" and st = demo_state
            and room = "PyStr ''lobby''" and owner = "ns_server demo_namespace"
            and c = "\<lparr>call_method = ''close_room'', call_args = [PyStr ''lobby''],
                     call_kwargs = [(''namespace'', PyStr ''/admin'')]\<rparr>"]
  have b: "forwarded (snd (AsyncNamespace_close_room demo_namespace (PyStr ''lobby'')
                       (PyStr ''/admin'') demo_state))
     = [\<lparr>call_method = ''close_room'', call_args = [PyStr ''lobby''],
         call_kwargs = [(''namespace'', PyStr ''/admin'')]\<rparr>]"
    using e n by simp
  from a b show ?thesis by simp
qed

end
